theory Spec2Isabelle
  imports Complex_Main "HOL-Library.Word"
begin

section \<open>blobfuse utilities.cpp: cache eviction, listing, directory emulation, rename\<close>

text \<open>
  A shallow embedding of \<^verbatim>\<open>src/blobfuse/utilities.cpp\<close>. System calls and calls of the remote
  blob client are inputs of the model: each function takes the values those calls returned
  (and the value they left in \<^verbatim>\<open>errno\<close>) and returns its own result together with the
  calls it made. Threads are not modelled: each function is the sequential code of one caller.
\<close>

unbundle bit_operations_syntax

subsection \<open>Configuration and constants\<close>

text \<open>
  \<^verbatim>\<open>str_options.tmpPath\<close>, \<^verbatim>\<open>str_options.containerName\<close>, \<^verbatim>\<open>file_cache_timeout_in_seconds\<close>,
  \<^verbatim>\<open>high_threshold\<close> and \<^verbatim>\<open>low_threshold\<close> are globals declared in \<^verbatim>\<open>blobfuse.h\<close>; the model
  takes them as fields of a configuration record.
\<close>

record options =
  tmpPath :: string
  containerName :: string
  file_cache_timeout_in_seconds :: int
  high_threshold :: real
  low_threshold :: real

text \<open>The values of \<^verbatim>\<open>errno.h\<close> on Linux.\<close>

definition ENOENT :: int where "ENOENT = 2"
definition EIO :: int where "EIO = 5"
definition EWOULDBLOCK :: int where "EWOULDBLOCK = 11"

definition prepend_mnt_path_string :: "options \<Rightarrow> string \<Rightarrow> string" where
  "prepend_mnt_path_string opts p = tmpPath opts @ ''/root'' @ p"

subsection \<open>gc\_cache: the disk probe\<close>

text \<open>
  \<^verbatim>\<open>statvfs\<close> either fails or fills the buffer. The source multiplies the block counts by the
  block size in \<^verbatim>\<open>unsigned long\<close> (64 bits, wrapping) and converts to \<^verbatim>\<open>double\<close>; the model
  computes the percentage in the reals. A total of zero gives a NaN or a negative infinity in
  the source, for which both comparisons of \<^verbatim>\<open>check_disk_space\<close> are false: \<open>None\<close> here.
\<close>

record statvfs_buf =
  f_blocks :: "64 word"
  f_bfree :: "64 word"
  f_frsize :: "64 word"

datatype statvfs_result = StatvfsError | StatvfsOk statvfs_buf

definition used_percent :: "statvfs_buf \<Rightarrow> real option" where
  "used_percent buf =
     (let total = real (unat (f_blocks buf * f_frsize buf));
          available = real (unat (f_bfree buf * f_frsize buf));
          used = total - available
      in if total = 0 then None else Some ((used / total) * 100))"

definition check_disk_space :: "options \<Rightarrow> bool \<Rightarrow> statvfs_result \<Rightarrow> bool" where
  "check_disk_space opts disk_threshold_reached r =
     (case r of
        StatvfsError \<Rightarrow> False
      | StatvfsOk buf \<Rightarrow>
          (case used_percent buf of
             None \<Rightarrow> False
           | Some up \<Rightarrow>
               if up \<ge> high_threshold opts \<and> \<not> disk_threshold_reached then True
               else if up \<ge> low_threshold opts \<and> disk_threshold_reached then True
               else False))"




text \<open>
  The flag after each of a series of assignments
  \<^verbatim>\<open>disk_threshold_reached = check_disk_space()\<close>, one per probe.
\<close>

fun probe_flags :: "options \<Rightarrow> bool \<Rightarrow> statvfs_result list \<Rightarrow> bool list" where
  "probe_flags opts reached [] = []"
| "probe_flags opts reached (p # ps) =
     (let reached' = check_disk_space opts reached p in reached' # probe_flags opts reached' ps)"

subsection \<open>gc\_cache: the queue and one cycle of the worker loop\<close>

record file_to_delete =
  path :: string
  closed_time :: int

record gc_cache =
  m_cleanup :: "file_to_delete list"
  disk_threshold_reached :: bool

definition add_file :: "int \<Rightarrow> string \<Rightarrow> gc_cache \<Rightarrow> gc_cache" where
  "add_file time_now p g =
     g\<lparr>m_cleanup := m_cleanup g @ [\<lparr>path = p, closed_time = time_now\<rparr>]\<rparr>"

text \<open>
  What the system calls of one cycle return: \<^verbatim>\<open>time\<close>, the buffer after \<^verbatim>\<open>stat\<close> (whose
  return value the source does not look at), \<^verbatim>\<open>open\<close>, \<^verbatim>\<open>flock\<close> with the errno it left,
  and \<^verbatim>\<open>statvfs\<close>.
\<close>

record stat =
  st_mode :: "32 word"
  st_uid :: nat
  st_gid :: nat
  st_nlink :: nat
  st_size :: int
  st_mtime :: int
  st_ctime :: int

record gc_env =
  now :: int
  buf :: stat
  open_fd :: int
  flockres :: int
  flock_errno :: int
  probe :: statvfs_result

datatype gc_event =
    Usleep nat
  | Open string
  | Unlink string
  | FlockUnlock int
  | Close int
  | LogOpenHandle string
  | LogFlockFailed string int
  | LogOpenFailed string
  | PopFront

definition run_gc_cache_cycle :: "options \<Rightarrow> gc_env \<Rightarrow> gc_cache \<Rightarrow> gc_event list \<times> gc_cache" where
  "run_gc_cache_cycle opts e g =
     (case m_cleanup g of
        [] \<Rightarrow> ([Usleep 1000], g)
      | file # rest \<Rightarrow>
          if (now e - closed_time file > file_cache_timeout_in_seconds opts)
               \<or> disk_threshold_reached g
          then
            (let mntPath = prepend_mnt_path_string opts (path file);
                 (evs, g1) =
                   (if ((now e - st_mtime (buf e) > file_cache_timeout_in_seconds opts)
                          \<and> (now e - st_ctime (buf e) > file_cache_timeout_in_seconds opts))
                        \<or> disk_threshold_reached g
                    then
                      (if open_fd e > 0 then
                         (if flockres e \<noteq> 0 then
                            (if flock_errno e = EWOULDBLOCK
                             then ([Open mntPath, LogOpenHandle mntPath, Close (open_fd e)], g)
                             else ([Open mntPath, LogFlockFailed mntPath (flock_errno e),
                                    Close (open_fd e)], g))
                          else
                            ([Open mntPath, Unlink mntPath, FlockUnlock (open_fd e),
                              Close (open_fd e)],
                             g\<lparr>disk_threshold_reached :=
                                 check_disk_space opts (disk_threshold_reached g) (probe e)\<rparr>))
                       else ([Open mntPath, LogOpenFailed mntPath], g))
                    else ([], g))
             in (evs @ [PopFront], g1\<lparr>m_cleanup := tl (m_cleanup g1)\<rparr>))
          else
            ([Usleep 1000],
             g\<lparr>disk_threshold_reached :=
                 check_disk_space opts (disk_threshold_reached g) (probe e)\<rparr>))"

text \<open>The two eligibility tests of a cycle, as the source writes them.\<close>

definition closed_long_ago :: "options \<Rightarrow> gc_env \<Rightarrow> gc_cache \<Rightarrow> bool" where
  "closed_long_ago opts e g =
     (case m_cleanup g of
        [] \<Rightarrow> False
      | file # rest \<Rightarrow>
          (now e - closed_time file > file_cache_timeout_in_seconds opts)
            \<or> disk_threshold_reached g)"

definition still_old_on_disk :: "options \<Rightarrow> gc_env \<Rightarrow> gc_cache \<Rightarrow> bool" where
  "still_old_on_disk opts e g =
     (((now e - st_mtime (buf e) > file_cache_timeout_in_seconds opts)
         \<and> (now e - st_ctime (buf e) > file_cache_timeout_in_seconds opts))
       \<or> disk_threshold_reached g)"

definition unlinked :: "gc_event list \<Rightarrow> string list" where
  "unlinked evs = concat (map (\<lambda>ev. case ev of Unlink p \<Rightarrow> [p] | _ \<Rightarrow> []) evs)"

text \<open>Example inputs: a configuration, a queue of one closed file, and three cycles.\<close>

definition ex_opts :: options where
  "ex_opts = \<lparr>tmpPath = ''/tmp'', containerName = ''c'', file_cache_timeout_in_seconds = 120,
              high_threshold = 90, low_threshold = 80\<rparr>"

definition ex_gc :: gc_cache where
  "ex_gc = \<lparr>m_cleanup = [\<lparr>path = ''/a'', closed_time = 1000\<rparr>], disk_threshold_reached = False\<rparr>"

definition ex_probe :: "nat \<Rightarrow> statvfs_result" where
  "ex_probe used = StatvfsOk \<lparr>f_blocks = 100, f_bfree = word_of_nat (100 - used), f_frsize = 4096\<rparr>"

definition ex_stat :: stat where
  "ex_stat = \<lparr>st_mode = 0, st_uid = 0, st_gid = 0, st_nlink = 1, st_size = 10,
              st_mtime = 1000, st_ctime = 1000\<rparr>"

definition ex_env_free :: gc_env where
  "ex_env_free = \<lparr>now = 2000, buf = ex_stat, open_fd = 7, flockres = 0,
                  flock_errno = 0, probe = ex_probe 50\<rparr>"

definition ex_env_busy :: gc_env where
  "ex_env_busy = \<lparr>now = 2000, buf = ex_stat, open_fd = 7, flockres = -1,
                  flock_errno = 11, probe = ex_probe 50\<rparr>"

definition ex_env_young :: gc_env where
  "ex_env_young = \<lparr>now = 1060, buf = ex_stat, open_fd = 7, flockres = 0,
                   flock_errno = 0, probe = ex_probe 50\<rparr>"


subsection \<open>The remote listing and list\_all\_blobs\_hierarchical\<close>

text \<open>
  The fields of \<^verbatim>\<open>list_blobs_hierarchical_item\<close> and \<^verbatim>\<open>list_blobs_hierarchical_response\<close>
  that this file reads. A response is what one call of the blob client returned, with the
  value the call left in \<^verbatim>\<open>errno\<close> (0 when it succeeded; the source sets \<^verbatim>\<open>errno = 0\<close> before
  each call).
\<close>

record list_blobs_hierarchical_item =
  name :: string
  is_directory :: bool
  metadata :: "(string \<times> string) list"

record list_blobs_hierarchical_response =
  resp_errno :: int
  blobs :: "list_blobs_hierarchical_item list"
  next_marker :: string

text \<open>The arguments of one call of \<^verbatim>\<open>azure_blob_client_wrapper->list_blobs_hierarchical\<close>;
  \<open>call_maxresults\<close> is \<open>None\<close> for the overload without that argument.\<close>

record list_call =
  call_container :: string
  call_delimiter :: string
  call_continuation :: string
  call_prefix :: string
  call_maxresults :: "nat option"

record list_state =
  results :: "(list_blobs_hierarchical_item list \<times> bool) list"
  continuation :: string
  prior :: string
  success :: bool
  failcount :: int
  errno :: int
  calls :: "list_call list"

definition maxFailCount :: int where "maxFailCount = 20"

text \<open>The body of the do-while loop, given the response of the call it makes.\<close>

definition list_all_body ::
  "string \<Rightarrow> string \<Rightarrow> string \<Rightarrow> nat \<Rightarrow> list_blobs_hierarchical_response
   \<Rightarrow> list_state \<Rightarrow> list_state" where
  "list_all_body container delimiter prefix maxresults response s =
     (let s0 = s\<lparr>calls := calls s @
                   [\<lparr>call_container = container, call_delimiter = delimiter,
                     call_continuation = continuation s, call_prefix = prefix,
                     call_maxresults = (if maxresults \<le> 0 then None else Some maxresults)\<rparr>],
                 errno := resp_errno response\<rparr>
      in if errno s0 = 0 then
           (let s1 = s0\<lparr>success := True, failcount := 0,
                         continuation := next_marker response\<rparr>
            in if length (blobs response) > 0 then
                 (let skip_first = (name (blobs response ! 0) = prior s1)
                  in s1\<lparr>prior := name (last (blobs response)),
                        results := results s1 @ [(blobs response, skip_first)]\<rparr>)
               else s1)
         else s0\<lparr>failcount := failcount s0 + 1, success := False\<rparr>)"

text \<open>The loop test \<^verbatim>\<open>(!continuation.empty() || !success) && (failcount < maxFailCount)\<close>.\<close>

definition list_all_again :: "list_state \<Rightarrow> bool" where
  "list_all_again s = ((continuation s \<noteq> [] \<or> \<not> success s) \<and> failcount s < maxFailCount)"

text \<open>
  The loop, run against the responses the remote store gives to its successive calls. When
  the responses run out while the loop would call again there is no result: \<open>None\<close>.
\<close>

fun list_all_loop ::
  "string \<Rightarrow> string \<Rightarrow> string \<Rightarrow> nat \<Rightarrow> list_blobs_hierarchical_response list
   \<Rightarrow> list_state \<Rightarrow> list_state option" where
  "list_all_loop container delimiter prefix maxresults [] s = None"
| "list_all_loop container delimiter prefix maxresults (response # rs) s =
     (let s' = list_all_body container delimiter prefix maxresults response s
      in if list_all_again s' then list_all_loop container delimiter prefix maxresults rs s'
         else Some s')"

definition list_all_init :: list_state where
  "list_all_init = \<lparr>results = [], continuation = [], prior = [], success = False,
                     failcount = 0, errno = 0, calls = []\<rparr>"

text \<open>The function returns the pages; the caller reads \<^verbatim>\<open>errno\<close> afterwards. The model returns
  the final state, of which \<open>results\<close> is the return value and \<open>errno\<close> what the caller reads.\<close>

definition list_all_blobs_hierarchical ::
  "string \<Rightarrow> string \<Rightarrow> string \<Rightarrow> nat \<Rightarrow> list_blobs_hierarchical_response list
   \<Rightarrow> list_state option" where
  "list_all_blobs_hierarchical container delimiter prefix maxresults rs =
     list_all_loop container delimiter prefix maxresults rs list_all_init"

text \<open>
  How the callers in this file read the pages: from index 1 in a page flagged \<open>skip_first\<close>,
  from index 0 otherwise.
\<close>

definition page_entries ::
  "list_blobs_hierarchical_item list \<times> bool \<Rightarrow> list_blobs_hierarchical_item list" where
  "page_entries pg = (if snd pg then drop 1 (fst pg) else fst pg)"

definition listed_entries ::
  "(list_blobs_hierarchical_item list \<times> bool) list \<Rightarrow> list_blobs_hierarchical_item list" where
  "listed_entries pages = concat (map page_entries pages)"







fun flag_pages ::
  "string \<Rightarrow> list_blobs_hierarchical_item list list
   \<Rightarrow> (list_blobs_hierarchical_item list \<times> bool) list" where
  "flag_pages previous [] = []"
| "flag_pages previous (pg # pgs) =
     (pg, name (hd pg) = previous) # flag_pages (name (last pg)) pgs"


text \<open>Example listings: pages of plain blobs, and a failed call.\<close>

definition ex_item :: "string \<Rightarrow> list_blobs_hierarchical_item" where
  "ex_item n = \<lparr>name = n, is_directory = False, metadata = []\<rparr>"

definition ex_fail :: list_blobs_hierarchical_response where
  "ex_fail = \<lparr>resp_errno = 500, blobs = [], next_marker = []\<rparr>"



definition ex_listing_down :: "list_blobs_hierarchical_response list" where
  "ex_listing_down = replicate 20 ex_fail"



subsection \<open>Directory markers and is\_directory\_empty\<close>

text \<open>
  The fields of \<^verbatim>\<open>blob_property\<close> that this file reads (\<open>valid\<close> is the result of
  \<^verbatim>\<open>props.valid()\<close>), and what one call of \<^verbatim>\<open>get_blob_property\<close> returned together with
  the errno it left.
\<close>

record blob_property =
  valid :: bool
  blob_size :: nat
  prop_metadata :: "(string \<times> string) list"
  prop_last_modified :: int

record property_response =
  prop_errno :: int
  props :: blob_property

definition is_directory_blob :: "nat \<Rightarrow> (string \<times> string) list \<Rightarrow> bool" where
  "is_directory_blob sz md =
     (if sz = 0
      then list_ex (\<lambda>kv. fst kv = ''hdi_isfolder'' \<and> snd kv = ''true'') md
      else False)"











definition ex_absent :: property_response where
  "ex_absent = \<lparr>prop_errno = 404,
                 props = \<lparr>valid = False, blob_size = 0, prop_metadata = [],
                          prop_last_modified = 0\<rparr>\<rparr>"

definition ex_folder :: property_response where
  "ex_folder = \<lparr>prop_errno = 0,
                 props = \<lparr>valid = True, blob_size = 0,
                          prop_metadata = [(''hdi_isfolder'', ''true'')],
                          prop_last_modified = 0\<rparr>\<rparr>"

subsection \<open>azs\_getattr\<close>

text \<open>
  \<^verbatim>\<open>S_IFDIR\<close> and \<^verbatim>\<open>S_IFREG\<close> of \<^verbatim>\<open>sys/stat.h\<close> on Linux (octal 040000 and 0100000).
  \<^verbatim>\<open>default_permission\<close> and the table \<^verbatim>\<open>error_mapping\<close> are declared outside this file and
  are parameters.
\<close>

definition S_IFDIR :: "32 word" where "S_IFDIR = 16384"
definition S_IFREG :: "32 word" where "S_IFREG = 32768"

definition map_errno :: "(int \<rightharpoonup> int) \<Rightarrow> int \<Rightarrow> int" where
  "map_errno error_mapping error =
     (case error_mapping error of None \<Rightarrow> EIO | Some e \<Rightarrow> e)"

text \<open>
  \<^verbatim>\<open>a.compare(b) < 0\<close> of \<^verbatim>\<open>std::string\<close>: the first differing character decides, compared
  as an unsigned byte; when one string is a prefix of the other, the shorter one is less.
\<close>

fun compare_less :: "string \<Rightarrow> string \<Rightarrow> bool" where
  "compare_less [] [] = False"
| "compare_less [] (y # ys) = True"
| "compare_less (x # xs) [] = False"
| "compare_less (x # xs) (y # ys) =
     (if (of_char x :: nat) < of_char y then True
      else if (of_char y :: nat) < of_char x then False
      else compare_less xs ys)"

text \<open>
  What the calls of \<^verbatim>\<open>azs_getattr\<close> return: the fuse context, \<^verbatim>\<open>time\<close>, \<^verbatim>\<open>access\<close> on the
  cached file, \<^verbatim>\<open>lstat\<close> with its errno and buffer, the responses of the listing calls and the
  result of \<^verbatim>\<open>get_blob_property\<close> for the blob.
\<close>

record getattr_env =
  default_permission :: "32 word"
  error_mapping :: "int \<rightharpoonup> int"
  context_uid :: nat
  context_gid :: nat
  time_now :: int
  access_res :: int
  lstat_res :: int
  lstat_errno :: int
  lstat_buf :: stat
  getattr_listing :: "list_blobs_hierarchical_response list"
  getattr_property :: property_response

text \<open>A default-constructed item: its name is empty; its other fields are not read while
  the name is empty.\<close>

definition empty_item :: list_blobs_hierarchical_item where
  "empty_item = \<lparr>name = [], is_directory = False, metadata = []\<rparr>"

text \<open>
  The inner loop over the entries of one page, from the start index on; the state is
  \<^verbatim>\<open>blobItem\<close> and \<^verbatim>\<open>dirSize\<close>. The \<^verbatim>\<open>break\<close> leaves this loop only.
\<close>

fun scan_batch ::
  "string \<Rightarrow> list_blobs_hierarchical_item list \<Rightarrow> list_blobs_hierarchical_item \<times> nat
   \<Rightarrow> list_blobs_hierarchical_item \<times> nat" where
  "scan_batch blobNameStr [] st = st"
| "scan_batch blobNameStr (x # xs) (blobItem, dirSize) =
     (let counted = compare_less (name x) (blobNameStr @ ''/'');
          dirSize1 = (if counted then dirSize + 1 else dirSize)
      in if counted \<and> dirSize1 > 2 \<and> name blobItem \<noteq> [] then (blobItem, dirSize1)
         else if name blobItem = []
                 \<and> (name x = blobNameStr \<or> name x = blobNameStr @ ''/'')
         then scan_batch blobNameStr xs
                (x, if dirSize1 = 0
                       \<and> (is_directory_blob 0 (metadata x) \<or> is_directory x
                            \<or> name x = blobNameStr @ ''/'')
                    then 1 else dirSize1)
         else scan_batch blobNameStr xs (blobItem, dirSize1))"

definition scan_batches ::
  "string \<Rightarrow> (list_blobs_hierarchical_item list \<times> bool) list
   \<Rightarrow> list_blobs_hierarchical_item \<times> nat" where
  "scan_batches blobNameStr listResponse =
     foldl (\<lambda>st batch. scan_batch blobNameStr (page_entries batch) st) (empty_item, 0)
       listResponse"

definition azs_getattr ::
  "options \<Rightarrow> getattr_env \<Rightarrow> string \<Rightarrow> stat \<Rightarrow> (int \<times> stat) option" where
  "azs_getattr opts env pth stbuf =
     (if length pth = 1 then
        Some (0, stbuf\<lparr>st_mode := S_IFDIR OR default_permission env,
                       st_uid := context_uid env, st_gid := context_gid env,
                       st_nlink := 2, st_size := 4096, st_mtime := time_now env\<rparr>)
      else if access_res env \<noteq> - 1 then
        (if lstat_res env = - 1 then Some (- lstat_errno env, stbuf)
         else Some (0, lstat_buf env))
      else
        (let blobNameStr = drop 1 pth
         in case list_all_blobs_hierarchical (containerName opts) ''/'' blobNameStr 2
                   (getattr_listing env) of
              None \<Rightarrow> None
            | Some ls \<Rightarrow>
                if errno ls = 0 \<and> length (results ls) > 0 then
                  (let (blobItem, dirSize) = scan_batches blobNameStr (results ls)
                   in if name blobItem \<noteq> []
                         \<and> (is_directory_blob 0 (metadata blobItem) \<or> is_directory blobItem
                              \<or> name blobItem = blobNameStr @ ''/'')
                      then
                        Some (0, stbuf\<lparr>st_mode := S_IFDIR OR default_permission env,
                                       st_uid := context_uid env, st_gid := context_gid env,
                                       st_nlink := (if dirSize > 1 then 3 else 2),
                                       st_size := 4096\<rparr>)
                      else if name blobItem \<noteq> [] then
                        Some (0, stbuf\<lparr>st_mode := S_IFREG OR default_permission env,
                                       st_uid := context_uid env, st_gid := context_gid env,
                                       st_mtime :=
                                         prop_last_modified (props (getattr_property env)),
                                       st_nlink := 1,
                                       st_size := int (blob_size (props (getattr_property env)))\<rparr>)
                      else Some (- ENOENT, stbuf))
                else if errno ls > 0 then
                  Some (0 - map_errno (error_mapping env) (errno ls), stbuf)
                else Some (- ENOENT, stbuf)))"

text \<open>
  Words of the specification: an entry of the listing lies under the path when its name is
  longer than the path followed by a slash and starts with it; the hierarchical listing
  stands for all of them by the one entry named by the path followed by a slash.
\<close>

definition under_path :: "string \<Rightarrow> list_blobs_hierarchical_item \<Rightarrow> bool" where
  "under_path blobNameStr x =
     (take (length blobNameStr + 1) (name x) = blobNameStr @ ''/''
      \<and> length (name x) > length blobNameStr + 1)"

text \<open>Example inputs: a path that is not in the cache, and three listings for it.\<close>

definition ex_folder_item :: "string \<Rightarrow> list_blobs_hierarchical_item" where
  "ex_folder_item n = \<lparr>name = n, is_directory = False, metadata = [(''hdi_isfolder'', ''true'')]\<rparr>"

definition ex_prefix_item :: "string \<Rightarrow> list_blobs_hierarchical_item" where
  "ex_prefix_item n = \<lparr>name = n, is_directory = True, metadata = []\<rparr>"

definition ex_getattr_env :: "list_blobs_hierarchical_item list \<Rightarrow> getattr_env" where
  "ex_getattr_env entries =
     \<lparr>default_permission = 511, error_mapping = Map.empty, context_uid = 1000,
      context_gid = 1000, time_now = 2000, access_res = - 1, lstat_res = - 1, lstat_errno = 2,
      lstat_buf = ex_stat,
      getattr_listing = [\<lparr>resp_errno = 0, blobs = entries, next_marker = []\<rparr>],
      getattr_property = ex_folder\<rparr>"

subsection \<open>azs\_rename\_directory and azs\_rename\<close>

text \<open>
  An entry that \<^verbatim>\<open>readdir\<close> returns: its name and whether \<^verbatim>\<open>d_type == DT_DIR\<close>.
\<close>

record dirent =
  d_name :: string
  d_is_dir :: bool

text \<open>
  The calls the rename makes that change the cache or the store. The single-file rename,
  \<^verbatim>\<open>azs_rmdir\<close> and the recursive call for a subdirectory are recorded, not run: their
  return values are discarded by the source.
\<close>

datatype rename_call =
    RenameSingleFile string string
  | RenameDirectory string string
  | EnsureDirectory string
  | Rmdir string

datatype rename_result = Returned int | OutOfRange

text \<open>
  What the calls of \<^verbatim>\<open>azs_rename_directory\<close> return: \<^verbatim>\<open>get_blob_property\<close> for the source
  key, the errno left by the single-file rename of the marker blob, \<^verbatim>\<open>opendir\<close> and
  \<^verbatim>\<open>readdir\<close> on the cached source directory (\<open>None\<close> when \<^verbatim>\<open>opendir\<close> returns NULL), and
  the responses of the listing calls. \<open>list_maxresults\<close> is the default value of the last
  parameter of \<^verbatim>\<open>list_all_blobs_hierarchical\<close>, declared in \<^verbatim>\<open>blobfuse.h\<close>.
\<close>

record rename_env =
  rename_property :: property_response
  marker_rename_errno :: int
  dir_stream :: "dirent list option"
  rename_listing :: "list_blobs_hierarchical_response list"
  rename_error_mapping :: "int \<rightharpoonup> int"
  list_maxresults :: nat  

text \<open>\<^verbatim>\<open>dir_ent->d_name[0] != '.'\<close>; the character after an empty name is the terminating NUL.\<close>

definition not_dot_name :: "string \<Rightarrow> bool" where
  "not_dot_name n = (case n of [] \<Rightarrow> True | ch # _ \<Rightarrow> ch \<noteq> CHR ''.'')"

text \<open>The loop over the cached directory: the calls made and \<^verbatim>\<open>local_list_results\<close>.\<close>

fun rename_local ::
  "string \<Rightarrow> string \<Rightarrow> dirent list \<Rightarrow> rename_call list \<times> string list" where
  "rename_local srcPathStr dstPathStr [] = ([], [])"
| "rename_local srcPathStr dstPathStr (dir_ent # ents) =
     (let (cs, local_list_results) = rename_local srcPathStr dstPathStr ents
      in if not_dot_name (d_name dir_ent) then
           ((if d_is_dir dir_ent
             then RenameDirectory (srcPathStr @ d_name dir_ent) (dstPathStr @ d_name dir_ent)
             else RenameSingleFile (srcPathStr @ d_name dir_ent) (dstPathStr @ d_name dir_ent))
              # cs,
            d_name dir_ent # local_list_results)
         else (cs, local_list_results))"

text \<open>
  \<^verbatim>\<open>std::string::substr(pos, n)\<close>: throws \<^verbatim>\<open>std::out_of_range\<close> (\<open>None\<close>) when \<open>pos\<close> is beyond
  the end. The count of the first call below is a difference of two \<^verbatim>\<open>size_t\<close>, which wraps
  modulo \<open>2 ^ 64\<close>; the second call has no count (\<^verbatim>\<open>npos\<close>).
\<close>

definition substr :: "string \<Rightarrow> nat \<Rightarrow> nat \<Rightarrow> string option" where
  "substr s pos n = (if pos > length s then None else Some (take n (drop pos s)))"

definition prev_token_str :: "string \<Rightarrow> string \<Rightarrow> string option" where
  "prev_token_str srcPathStr nm =
     (if last nm = CHR ''/''
      then substr nm (length srcPathStr - 1)
             (nat ((int (length nm) - int (length srcPathStr)) mod 2 ^ 64))
      else substr nm (length srcPathStr - 1) (2 ^ 64 - 1))"

text \<open>
  The loops over the listed entries (all pages, each from its start index): the calls made,
  and whether \<^verbatim>\<open>substr\<close> threw, which ends the function.
\<close>

fun rename_remote ::
  "string \<Rightarrow> string \<Rightarrow> string list \<Rightarrow> list_blobs_hierarchical_item list
   \<Rightarrow> rename_call list \<times> bool" where
  "rename_remote srcPathStr dstPathStr local_list_results [] = ([], False)"
| "rename_remote srcPathStr dstPathStr local_list_results (x # xs) =
     (if length (name x) > 0 then
        (case prev_token_str srcPathStr (name x) of
           None \<Rightarrow> ([], True)
         | Some tok \<Rightarrow>
             (let (cs, thrown) = rename_remote srcPathStr dstPathStr local_list_results xs
              in if length tok > 0 \<and> tok \<notin> set local_list_results then
                   ((if is_directory x
                     then RenameDirectory (srcPathStr @ tok) (dstPathStr @ tok)
                     else RenameSingleFile (srcPathStr @ tok) (dstPathStr @ tok)) # cs,
                    thrown)
                 else (cs, thrown)))
      else rename_remote srcPathStr dstPathStr local_list_results xs)"

text \<open>\<^verbatim>\<open>if (s.size() > 1) s.push_back('/')\<close>.\<close>

definition push_slash :: "string \<Rightarrow> string" where
  "push_slash s = (if length s > 1 then s @ ''/'' else s)"

definition azs_rename_directory ::
  "options \<Rightarrow> rename_env \<Rightarrow> string \<Rightarrow> string
   \<Rightarrow> (rename_call list \<times> rename_result) option" where
  "azs_rename_directory opts env src dst =
     (if length src < 1 then Some ([], OutOfRange)
      else
        (let pr = rename_property env;
             marker = (prop_errno pr = 0 \<and> valid (props pr)
                         \<and> is_directory_blob (blob_size (props pr)) (prop_metadata (props pr)));
             calls0 = (if marker then [RenameSingleFile src dst] else []);
             err = (if marker then marker_rename_errno env else prop_errno pr)
         in if err \<noteq> 0 \<and> (err \<noteq> 404 \<and> err \<noteq> ENOENT)
            then Some (calls0, Returned (0 - map_errno (rename_error_mapping env) err))
            else
              (let srcPathStr = push_slash src;
                   dstPathStr = push_slash dst;
                   calls1 = calls0 @ [EnsureDirectory
                              (prepend_mnt_path_string opts (dstPathStr @ ''placeholder''))];
                   (calls2, local_list_results) =
                     (case dir_stream env of
                        None \<Rightarrow> ([], [])
                      | Some ents \<Rightarrow> rename_local srcPathStr dstPathStr ents)
               in case list_all_blobs_hierarchical (containerName opts) ''/''
                         (drop 1 srcPathStr) (list_maxresults env) (rename_listing env) of
                    None \<Rightarrow> None
                  | Some ls \<Rightarrow>
                      if errno ls \<noteq> 0
                      then Some (calls1 @ calls2,
                                 Returned (0 - map_errno (rename_error_mapping env) (errno ls)))
                      else
                        (let (calls3, thrown) =
                               rename_remote srcPathStr dstPathStr local_list_results
                                 (listed_entries (results ls))
                         in if thrown then Some (calls1 @ calls2 @ calls3, OutOfRange)
                            else Some (calls1 @ calls2 @ calls3 @ [Rmdir src], Returned 0)))))"

text \<open>
  \<^verbatim>\<open>azs_rename\<close>. The value that \<^verbatim>\<open>azs_rename_single_file\<close> returns is an argument of the
  model, which the source does not read.
\<close>

definition azs_rename ::
  "options \<Rightarrow> getattr_env \<Rightarrow> rename_env \<Rightarrow> int \<Rightarrow> string \<Rightarrow> string \<Rightarrow> stat
   \<Rightarrow> (rename_call list \<times> rename_result) option" where
  "azs_rename opts genv renv single_file_ret src dst statbuf0 =
     (case azs_getattr opts genv src statbuf0 of
        None \<Rightarrow> None
      | Some (getattrret, statbuf) \<Rightarrow>
          if getattrret \<noteq> 0 then Some ([], Returned getattrret)
          else if (st_mode statbuf AND S_IFDIR) = S_IFDIR then
            (case azs_rename_directory opts renv src dst of
               None \<Rightarrow> None
             | Some (cs, OutOfRange) \<Rightarrow> Some (cs, OutOfRange)
             | Some (cs, Returned v) \<Rightarrow> Some (cs, Returned 0))
          else Some ([RenameSingleFile src dst], Returned 0))"

text \<open>
  Words of the claims: how many of the calls rename a given source path, and the trailing
  names that the pass over the listing computes for the entries it reads.
\<close>

definition renames_source :: "string \<Rightarrow> rename_call \<Rightarrow> bool" where
  "renames_source p c =
     (case c of
        RenameSingleFile s d \<Rightarrow> s = p
      | RenameDirectory s d \<Rightarrow> s = p
      | EnsureDirectory d \<Rightarrow> False
      | Rmdir d \<Rightarrow> False)"

definition times_renamed :: "string \<Rightarrow> rename_call list \<Rightarrow> nat" where
  "times_renamed p cs = length (filter (renames_source p) cs)"

definition trailing_names ::
  "string \<Rightarrow> list_blobs_hierarchical_item list \<Rightarrow> string list" where
  "trailing_names srcPathStr xs =
     List.map_filter (\<lambda>x. if length (name x) > 0 then prev_token_str srcPathStr (name x) else None)
       xs"

text \<open>
  Example inputs for the rename: a cached directory \<^verbatim>\<open>/d\<close> with a file, a subdirectory and
  two dot-named files, and a listing of the store under \<^verbatim>\<open>d/\<close>.
\<close>

definition ex_rename_env ::
  "dirent list option \<Rightarrow> list_blobs_hierarchical_response list \<Rightarrow> rename_env" where
  "ex_rename_env ds rs =
     \<lparr>rename_property = ex_absent, marker_rename_errno = 0, dir_stream = ds,
      rename_listing = rs, rename_error_mapping = Map.empty, list_maxresults = 0\<rparr>"

definition ex_cached :: "dirent list" where
  "ex_cached = [\<lparr>d_name = ''x'', d_is_dir = False\<rparr>, \<lparr>d_name = ''sub'', d_is_dir = True\<rparr>,
                \<lparr>d_name = ''.h'', d_is_dir = False\<rparr>, \<lparr>d_name = ''.only'', d_is_dir = False\<rparr>]"

definition ex_remote :: "list_blobs_hierarchical_response list" where
  "ex_remote = [\<lparr>resp_errno = 0,
                 blobs = [ex_item ''d/.h'', ex_prefix_item ''d/sub/'', ex_item ''d/x'',
                          ex_item ''d/y''],
                 next_marker = []\<rparr>]"

definition ex_rename_calls :: "rename_call list" where
  "ex_rename_calls =
     [EnsureDirectory ''/tmp/root/e/placeholder'',
      RenameSingleFile ''/d/x'' ''/e/x'', RenameDirectory ''/d/sub'' ''/e/sub'',
      RenameSingleFile ''/d/.h'' ''/e/.h'', RenameSingleFile ''/d/y'' ''/e/y'',
      Rmdir ''/d'']"

section \<open>Theorems\<close>

subsection \<open>Eviction\<close>

lemma unlinked_simps:
  "unlinked [] = []"
  "unlinked (Unlink p # evs) = p # unlinked evs"
  "unlinked (Usleep n # evs) = unlinked evs"
  "unlinked (Open p # evs) = unlinked evs"
  "unlinked (FlockUnlock fd # evs) = unlinked evs"
  "unlinked (Close fd # evs) = unlinked evs"
  "unlinked (LogOpenHandle p # evs) = unlinked evs"
  "unlinked (LogFlockFailed p err # evs) = unlinked evs"
  "unlinked (LogOpenFailed p # evs) = unlinked evs"
  "unlinked (PopFront # evs) = unlinked evs"
  by (simp_all add: unlinked_def)

text \<open>
  C1. In one cycle of the worker loop a cached file is unlinked only if it is the file at the
  front of the queue, both eligibility tests hold (the second one on the times \<^verbatim>\<open>stat\<close> gave:
  mtime and ctime both older than the timeout, or the disk-threshold flag set), the file was
  opened and the non-blocking exclusive \<^verbatim>\<open>flock\<close> returned 0. When \<^verbatim>\<open>flock\<close> fails with
  \<^verbatim>\<open>EWOULDBLOCK\<close> nothing is unlinked in that cycle.
\<close>

theorem unlink_only_when_old_and_locked:
  "(p \<in> set (unlinked (fst (run_gc_cache_cycle opts e g))) \<longrightarrow>
      (\<exists>file rest. m_cleanup g = file # rest \<and> p = prepend_mnt_path_string opts (path file))
      \<and> closed_long_ago opts e g \<and> still_old_on_disk opts e g
      \<and> open_fd e > 0 \<and> flockres e = 0)
   \<and> (flockres e \<noteq> 0 \<and> flock_errno e = EWOULDBLOCK \<longrightarrow>
        unlinked (fst (run_gc_cache_cycle opts e g)) = [])"
proof (cases "m_cleanup g")
  case Nil
  then show ?thesis
    by (simp add: run_gc_cache_cycle_def unlinked_simps)
next
  case (Cons front rest)
  then show ?thesis
    by (simp add: run_gc_cache_cycle_def closed_long_ago_def still_old_on_disk_def
        unlinked_simps Let_def split: if_splits)
qed

theorem unlink_only_when_old_and_locked_witness:
  "''/tmp/root/a'' \<in> set (unlinked (fst (run_gc_cache_cycle ex_opts ex_env_free ex_gc)))
   \<and> closed_long_ago ex_opts ex_env_free ex_gc \<and> still_old_on_disk ex_opts ex_env_free ex_gc
   \<and> open_fd ex_env_free > 0 \<and> flockres ex_env_free = 0
   \<and> flockres ex_env_busy \<noteq> 0 \<and> flock_errno ex_env_busy = EWOULDBLOCK
   \<and> unlinked (fst (run_gc_cache_cycle ex_opts ex_env_busy ex_gc)) = []"
proof -
  have a: "''/tmp/root/a'' \<in> set (unlinked (fst (run_gc_cache_cycle ex_opts ex_env_free ex_gc)))"
    by (simp add: run_gc_cache_cycle_def ex_opts_def ex_env_free_def ex_gc_def ex_stat_def
        prepend_mnt_path_string_def unlinked_simps Let_def)
  have b: "flockres ex_env_busy \<noteq> 0 \<and> flock_errno ex_env_busy = EWOULDBLOCK"
    by (simp add: ex_env_busy_def EWOULDBLOCK_def)
  from a b
    unlink_only_when_old_and_locked [of "''/tmp/root/a''" ex_opts ex_env_free ex_gc]
    unlink_only_when_old_and_locked [of "''/tmp/root/a''" ex_opts ex_env_busy ex_gc]
  show ?thesis by blast
qed

text \<open>
  C2, as the claim states it, fails: a candidate whose \<^verbatim>\<open>flock\<close> attempt fails with
  \<^verbatim>\<open>EWOULDBLOCK\<close> is popped from the queue in that same cycle.
\<close>

theorem busy_candidate_is_dequeued:
  "m_cleanup ex_gc = [\<lparr>path = ''/a'', closed_time = 1000\<rparr>]
   \<and> flockres ex_env_busy \<noteq> 0 \<and> flock_errno ex_env_busy = EWOULDBLOCK
   \<and> run_gc_cache_cycle ex_opts ex_env_busy ex_gc =
       ([Open ''/tmp/root/a'', LogOpenHandle ''/tmp/root/a'', Close 7, PopFront],
        \<lparr>m_cleanup = [], disk_threshold_reached = False\<rparr>)"
  by (simp add: run_gc_cache_cycle_def ex_opts_def ex_env_busy_def ex_gc_def ex_stat_def
      prepend_mnt_path_string_def EWOULDBLOCK_def Let_def)

text \<open>
  C2, amended. A cycle pops the front of the queue exactly when the queue is not empty and the
  first eligibility test holds, and then in every outcome: unlinked, \<^verbatim>\<open>flock\<close> failed with
  \<^verbatim>\<open>EWOULDBLOCK\<close> or with another errno, \<^verbatim>\<open>open\<close> failed, or the second test failed. A
  candidate whose \<^verbatim>\<open>flock\<close> failed is not unlinked. When the first test fails the queue is
  left as it is.
\<close>

theorem dequeue_iff_first_test_holds:
  "(closed_long_ago opts e g \<longrightarrow>
      m_cleanup (snd (run_gc_cache_cycle opts e g)) = tl (m_cleanup g)
      \<and> last (fst (run_gc_cache_cycle opts e g)) = PopFront
      \<and> (flockres e \<noteq> 0 \<longrightarrow> unlinked (fst (run_gc_cache_cycle opts e g)) = []))
   \<and> (\<not> closed_long_ago opts e g \<longrightarrow>
        m_cleanup (snd (run_gc_cache_cycle opts e g)) = m_cleanup g
        \<and> fst (run_gc_cache_cycle opts e g) = [Usleep 1000])"
proof (cases "m_cleanup g")
  case Nil
  then show ?thesis
    by (simp add: run_gc_cache_cycle_def closed_long_ago_def)
next
  case (Cons front rest)
  then show ?thesis
    by (simp add: run_gc_cache_cycle_def closed_long_ago_def unlinked_simps Let_def
        split: if_splits)
qed

theorem dequeue_iff_first_test_holds_witness:
  "closed_long_ago ex_opts ex_env_busy ex_gc
   \<and> m_cleanup (snd (run_gc_cache_cycle ex_opts ex_env_busy ex_gc)) = tl (m_cleanup ex_gc)
   \<and> flockres ex_env_busy \<noteq> 0
   \<and> unlinked (fst (run_gc_cache_cycle ex_opts ex_env_busy ex_gc)) = []
   \<and> \<not> closed_long_ago ex_opts ex_env_young ex_gc
   \<and> m_cleanup (snd (run_gc_cache_cycle ex_opts ex_env_young ex_gc)) = m_cleanup ex_gc"
proof -
  have a: "closed_long_ago ex_opts ex_env_busy ex_gc"
    by (simp add: closed_long_ago_def ex_opts_def ex_env_busy_def ex_gc_def ex_stat_def)
  have b: "flockres ex_env_busy \<noteq> 0"
    by (simp add: ex_env_busy_def)
  have c: "\<not> closed_long_ago ex_opts ex_env_young ex_gc"
    by (simp add: closed_long_ago_def ex_opts_def ex_env_young_def ex_gc_def)
  from a b c
    dequeue_iff_first_test_holds [of ex_opts ex_env_busy ex_gc]
    dequeue_iff_first_test_holds [of ex_opts ex_env_young ex_gc]
  show ?thesis by blast
qed

subsection \<open>Disk-threshold hysteresis\<close>






lemma length_probe_flags: "length (probe_flags opts r ps) = length ps"
  by (induction ps arbitrary: r) (simp_all add: Let_def)







subsection \<open>Paginated listing\<close>
























lemma flag_pages_nth:
  "i < length pgs \<Longrightarrow>
   flag_pages prev pgs ! i =
     (pgs ! i, name (hd (pgs ! i)) = (if i = 0 then prev else name (last (pgs ! (i - 1)))))"
proof (induction pgs arbitrary: prev i)
  case Nil
  then show ?case by simp
next
  case (Cons pg pgs)
  show ?case
  proof (cases i)
    case 0
    then show ?thesis by simp
  next
    case (Suc i')
    with Cons.prems have "i' < length pgs" by simp
    from Cons.IH [OF this, of "name (last pg)"] Suc show ?thesis
      by (cases i') simp_all
  qed
qed

lemma length_flag_pages: "length (flag_pages prev pgs) = length pgs"
  by (induction pgs arbitrary: prev) simp_all







subsection \<open>Directory state\<close>















subsection \<open>Attribute lookup\<close>

text \<open>
  C7 fails on the code. For the path \<^verbatim>\<open>/a\<close>, not in the cache, with the zero-size blob \<^verbatim>\<open>a\<close>
  that carries the folder metadata flag as the exact match: when the listing also holds the
  sibling blob \<^verbatim>\<open>a.txt\<close> and no entry under \<^verbatim>\<open>a/\<close>, the link count is 3; when the listing
  also holds the entry \<^verbatim>\<open>a/\<close> that stands for the children of the directory, or a child
  \<^verbatim>\<open>a/x\<close> itself, the link count is 2. The counter \<^verbatim>\<open>dirSize\<close> counts the entries whose name
  compares below \<^verbatim>\<open>a/\<close>, which are never children of \<^verbatim>\<open>a\<close>.
\<close>

theorem getattr_link_count_ignores_children:
  "map_option (\<lambda>r. (fst r, st_mode (snd r) AND S_IFDIR = S_IFDIR, st_nlink (snd r)))
     (azs_getattr ex_opts (ex_getattr_env [ex_folder_item ''a'', ex_item ''a.txt''])
        ''/a'' ex_stat)
     = Some (0, True, 3)
   \<and> filter (under_path ''a'') [ex_folder_item ''a'', ex_item ''a.txt''] = []
   \<and> map_option (\<lambda>r. (fst r, st_mode (snd r) AND S_IFDIR = S_IFDIR, st_nlink (snd r)))
     (azs_getattr ex_opts (ex_getattr_env [ex_folder_item ''a'', ex_prefix_item ''a/''])
        ''/a'' ex_stat)
     = Some (0, True, 2)
   \<and> map_option (\<lambda>r. (fst r, st_mode (snd r) AND S_IFDIR = S_IFDIR, st_nlink (snd r)))
     (azs_getattr ex_opts (ex_getattr_env [ex_folder_item ''a'', ex_item ''a/x''])
        ''/a'' ex_stat)
     = Some (0, True, 2)
   \<and> filter (under_path ''a'') [ex_folder_item ''a'', ex_item ''a/x''] = [ex_item ''a/x'']"
  by (simp add: azs_getattr_def scan_batches_def page_entries_def
      list_all_blobs_hierarchical_def list_all_init_def list_all_body_def
      list_all_again_def maxFailCount_def Let_def is_directory_blob_def empty_item_def
      ex_getattr_env_def ex_folder_item_def ex_prefix_item_def ex_item_def ex_opts_def
      ex_stat_def S_IFDIR_def under_path_def)

subsection \<open>Directory rename\<close>


lemma times_renamed_simps:
  "times_renamed p [] = 0"
  "times_renamed p (RenameSingleFile s d # cs) = (if s = p then 1 else 0) + times_renamed p cs"
  "times_renamed p (RenameDirectory s d # cs) = (if s = p then 1 else 0) + times_renamed p cs"
  "times_renamed p (EnsureDirectory d # cs) = times_renamed p cs"
  "times_renamed p (Rmdir d # cs) = times_renamed p cs"
  "times_renamed p (as @ bs) = times_renamed p as + times_renamed p bs"
  by (simp_all add: times_renamed_def renames_source_def)

lemma rename_local_names:
  "snd (rename_local s d ents) = map d_name (filter (\<lambda>e. not_dot_name (d_name e)) ents)"
  by (induction ents) (simp_all add: Let_def case_prod_beta)

lemma rename_local_times:
  "times_renamed (s @ n) (fst (rename_local s d ents)) =
     (if not_dot_name n then count_list (map d_name ents) n else 0)"
  by (induction ents) (auto simp: Let_def times_renamed_simps case_prod_beta)


lemma trailing_names_simps:
  "trailing_names s [] = []"
  "trailing_names s (x # xs) =
     (if length (name x) > 0
      then (case prev_token_str s (name x) of
              None \<Rightarrow> trailing_names s xs
            | Some tok \<Rightarrow> tok # trailing_names s xs)
      else trailing_names s xs)"
  by (auto simp: trailing_names_def List.map_filter_simps split: option.splits)

lemma rename_remote_times:
  "snd (rename_remote s d locals xs) = False \<Longrightarrow>
   times_renamed (s @ n) (fst (rename_remote s d locals xs)) =
     (if n \<noteq> [] \<and> n \<notin> set locals then count_list (trailing_names s xs) n else 0)"
proof (induction xs)
  case Nil
  then show ?case by (simp add: times_renamed_simps trailing_names_simps)
next
  case (Cons x xs)
  show ?case
  proof (cases "length (name x) > 0")
    case False
    with Cons show ?thesis by (simp add: trailing_names_simps)
  next
    case True
    show ?thesis
    proof (cases "prev_token_str s (name x)")
      case None
      with True Cons.prems show ?thesis by simp
    next
      case (Some tok)
      with True Cons.prems have "snd (rename_remote s d locals xs) = False"
        by (simp add: Let_def case_prod_beta split: if_splits)
      from Cons.IH [OF this] True Some show ?thesis
        by (auto simp: Let_def times_renamed_simps trailing_names_simps case_prod_beta)
    qed
  qed
qed

lemma rename_remote_none:
  "n = [] \<or> n \<in> set locals \<or> n \<notin> set (trailing_names s xs) \<Longrightarrow>
   times_renamed (s @ n) (fst (rename_remote s d locals xs)) = 0"
proof (induction xs)
  case Nil
  then show ?case by (simp add: times_renamed_simps)
next
  case (Cons x xs)
  show ?case
  proof (cases "length (name x) > 0")
    case False
    with Cons show ?thesis by (simp add: trailing_names_simps)
  next
    case True
    show ?thesis
    proof (cases "prev_token_str s (name x)")
      case None
      with True show ?thesis by (simp add: times_renamed_simps)
    next
      case (Some tok)
      with True Cons.prems have "n = [] \<or> n \<in> set locals \<or> n \<notin> set (trailing_names s xs)"
        by (auto simp: trailing_names_simps)
      from Cons.IH [OF this] True Some Cons.prems show ?thesis
        by (auto simp: Let_def times_renamed_simps trailing_names_simps case_prod_beta)
    qed
  qed
qed

lemma map_errno_nonzero: "0 \<notin> ran em \<Longrightarrow> map_errno em e \<noteq> 0"
  by (auto simp: map_errno_def EIO_def ran_def split: option.splits)

lemma push_slash_append_neq: "n \<noteq> [] \<Longrightarrow> push_slash src @ n \<noteq> src"
  by (simp add: push_slash_def)

lemma rename_directory_success:
  assumes "azs_rename_directory opts env src dst = Some (cs, Returned 0)"
    and "0 \<notin> ran (rename_error_mapping env)"
    and "list_all_blobs_hierarchical (containerName opts) ''/'' (drop 1 (push_slash src))
           (list_maxresults env) (rename_listing env) = Some ls"
  shows "\<exists>calls0 loc.
           loc = (case dir_stream env of None \<Rightarrow> ([], [])
                  | Some ents \<Rightarrow> rename_local (push_slash src) (push_slash dst) ents)
         \<and> (calls0 = [] \<or> calls0 = [RenameSingleFile src dst])
         \<and> snd (rename_remote (push_slash src) (push_slash dst) (snd loc)
                   (listed_entries (results ls))) = False
         \<and> cs = calls0
                @ [EnsureDirectory (prepend_mnt_path_string opts (push_slash dst @ ''placeholder''))]
                @ fst loc
                @ fst (rename_remote (push_slash src) (push_slash dst) (snd loc)
                         (listed_entries (results ls)))
                @ [Rmdir src]"
  using assms map_errno_nonzero [OF assms(2)]
  by (auto simp: azs_rename_directory_def Let_def case_prod_beta split: if_splits option.splits)

lemma rename_directory_times_zero:
  assumes "azs_rename_directory opts env src dst = Some (cs, res)"
    and "list_all_blobs_hierarchical (containerName opts) ''/'' (drop 1 (push_slash src))
           (list_maxresults env) (rename_listing env) = Some ls"
    and "push_slash src @ n \<noteq> src"
    and "\<And>es. times_renamed (push_slash src @ n)
                  (fst (rename_local (push_slash src) (push_slash dst) es)) = 0"
    and "\<And>locals. times_renamed (push_slash src @ n)
           (fst (rename_remote (push_slash src) (push_slash dst) locals
                   (listed_entries (results ls)))) = 0"
  shows "times_renamed (push_slash src @ n) cs = 0"
proof -
  have m: "times_renamed (push_slash src @ n) [RenameSingleFile src dst] = 0"
    using assms(3) by (simp add: times_renamed_simps)
  have neq: "src \<noteq> push_slash src @ n" using assms(3) by simp
  show ?thesis
    using assms(1,2) neq
    by (simp add: azs_rename_directory_def Let_def case_prod_beta split: if_splits option.splits)
       (auto simp: times_renamed_simps assms(4,5) m)
qed


text \<open>
  C10. Let \<open>n\<close> begin with a dot. The pass over the cached directory makes no rename call for
  the source path of \<open>n\<close> and does not record \<open>n\<close>, whatever the directory holds. Whenever
  \<^verbatim>\<open>azs_rename_directory\<close> returns and the trailing names of the listing do not include \<open>n\<close>,
  no call renames that path: an entry that is only in the cache is left behind. When the
  function returns 0, the path is renamed once for each entry of the listing with trailing
  name \<open>n\<close>.
\<close>

theorem dot_names_skipped_in_local_pass:
  assumes "azs_rename_directory opts env src dst = Some (cs, res)"
    and "list_all_blobs_hierarchical (containerName opts) ''/'' (drop 1 (push_slash src))
           (list_maxresults env) (rename_listing env) = Some ls"
    and "\<not> not_dot_name n"
  shows "times_renamed (push_slash src @ n)
           (fst (rename_local (push_slash src) (push_slash dst) ents)) = 0
       \<and> n \<notin> set (snd (rename_local (push_slash src) (push_slash dst) ents))
       \<and> (n \<notin> set (trailing_names (push_slash src) (listed_entries (results ls)))
            \<longrightarrow> times_renamed (push_slash src @ n) cs = 0)
       \<and> (res = Returned 0 \<and> 0 \<notin> ran (rename_error_mapping env)
            \<longrightarrow> times_renamed (push_slash src @ n) cs
                  = count_list (trailing_names (push_slash src) (listed_entries (results ls))) n)"
proof -
  let ?s = "push_slash src" and ?d = "push_slash dst"
  let ?toks = "trailing_names ?s (listed_entries (results ls))"
  from assms(3) have ne: "n \<noteq> []" by (auto simp: not_dot_name_def)
  have neq: "?s @ n \<noteq> src" using ne by (rule push_slash_append_neq)
  have loc0: "times_renamed (?s @ n) (fst (rename_local ?s ?d es)) = 0" for es
    using assms(3) by (simp add: rename_local_times)
  have notrec: "n \<notin> set (snd (rename_local ?s ?d es))" for es
    using assms(3) by (auto simp: rename_local_names)
  have loc0': "times_renamed (?s @ n)
                 (fst (case dir_stream env of None \<Rightarrow> ([], [])
                       | Some es \<Rightarrow> rename_local ?s ?d es)) = 0"
    using loc0 by (simp add: times_renamed_simps split: option.splits)
  have notrec': "n \<notin> set (snd (case dir_stream env of None \<Rightarrow> ([], [])
                       | Some es \<Rightarrow> rename_local ?s ?d es))"
    using notrec by (simp split: option.splits)
  have left: "times_renamed (?s @ n) cs = 0" if "n \<notin> set ?toks"
  proof (rule rename_directory_times_zero [OF assms(1,2) neq])
    fix es
    show "times_renamed (?s @ n) (fst (rename_local ?s ?d es)) = 0" by (rule loc0)
  next
    fix locals
    show "times_renamed (?s @ n)
            (fst (rename_remote ?s ?d locals (listed_entries (results ls)))) = 0"
      using that by (intro rename_remote_none) simp
  qed
  have full: "times_renamed (?s @ n) cs = count_list ?toks n"
    if h: "res = Returned 0 \<and> 0 \<notin> ran (rename_error_mapping env)"
  proof -
    from h assms(1) have a1: "azs_rename_directory opts env src dst = Some (cs, Returned 0)" by simp
    from h have a2: "0 \<notin> ran (rename_error_mapping env)" by simp
    from rename_directory_success [OF a1 a2 assms(2)]
    obtain calls0 loc where
      loc: "loc = (case dir_stream env of None \<Rightarrow> ([], [])
                  | Some es \<Rightarrow> rename_local ?s ?d es)"
      and c0: "calls0 = [] \<or> calls0 = [RenameSingleFile src dst]"
      and nothrow: "snd (rename_remote ?s ?d (snd loc) (listed_entries (results ls))) = False"
      and cs: "cs = calls0
                @ [EnsureDirectory (prepend_mnt_path_string opts (?d @ ''placeholder''))]
                @ fst loc @ fst (rename_remote ?s ?d (snd loc) (listed_entries (results ls)))
                @ [Rmdir src]"
      by blast
    have t0: "times_renamed (?s @ n) calls0 = 0"
      using c0 neq by (auto simp: times_renamed_simps)
    have t1: "times_renamed (?s @ n) (fst loc) = 0" using loc0' loc by simp
    have nr: "n \<notin> set (snd loc)" using notrec' loc by simp
    have t2: "times_renamed (?s @ n)
                (fst (rename_remote ?s ?d (snd loc) (listed_entries (results ls))))
              = count_list ?toks n"
      using rename_remote_times [OF nothrow, of n] nr ne by simp
    show ?thesis by (simp add: cs times_renamed_simps t0 t1 t2)
  qed
  from loc0 [of ents] notrec [of ents] left full show ?thesis by simp
qed

text \<open>
  C9. When the attribute lookup on the source returns 0, \<^verbatim>\<open>azs_rename\<close> returns 0: for a
  file, whatever the single-file rename returned; for a directory, whatever value
  \<^verbatim>\<open>azs_rename_directory\<close> returned. No value other than 0 is returned after a lookup that
  returned 0.
\<close>

theorem azs_rename_reports_success:
  assumes "azs_getattr opts genv src statbuf0 = Some (0, statbuf)"
  shows "((st_mode statbuf AND S_IFDIR) \<noteq> S_IFDIR \<longrightarrow>
            azs_rename opts genv renv single_file_ret src dst statbuf0
              = Some ([RenameSingleFile src dst], Returned 0))
       \<and> ((st_mode statbuf AND S_IFDIR) = S_IFDIR \<longrightarrow>
            (\<forall>cs v. azs_rename_directory opts renv src dst = Some (cs, Returned v) \<longrightarrow>
               azs_rename opts genv renv single_file_ret src dst statbuf0
                 = Some (cs, Returned 0)))
       \<and> (\<forall>cs v. azs_rename opts genv renv single_file_ret src dst statbuf0
                     = Some (cs, Returned v) \<longrightarrow> v = 0)"
  using assms
  by (auto simp: azs_rename_def split: option.splits rename_result.splits)

lemmas rename_eval = azs_rename_directory_def push_slash_def prepend_mnt_path_string_def
  is_directory_blob_def ENOENT_def EIO_def map_errno_def
  list_all_blobs_hierarchical_def list_all_init_def list_all_body_def
  list_all_again_def maxFailCount_def Let_def listed_entries_def page_entries_def
  prev_token_str_def substr_def not_dot_name_def
  ex_rename_env_def ex_cached_def ex_remote_def ex_absent_def ex_opts_def
  ex_item_def ex_prefix_item_def ex_rename_calls_def

lemma ex_rename_run:
  "azs_rename_directory ex_opts (ex_rename_env (Some ex_cached) ex_remote) ''/d'' ''/e''
     = Some (ex_rename_calls, Returned 0)"
  by (simp add: rename_eval)

lemma ex_rename_listing:
  "list_all_blobs_hierarchical (containerName ex_opts) ''/'' (drop 1 (push_slash ''/d''))
     (list_maxresults (ex_rename_env (Some ex_cached) ex_remote))
     (rename_listing (ex_rename_env (Some ex_cached) ex_remote))
   = Some \<lparr>results = [([ex_item ''d/.h'', ex_prefix_item ''d/sub/'', ex_item ''d/x'',
                          ex_item ''d/y''], False)],
           continuation = [], prior = ''d/y'', success = True, failcount = 0, errno = 0,
           calls = [\<lparr>call_container = ''c'', call_delimiter = ''/'', call_continuation = [],
                     call_prefix = ''d/'', call_maxresults = None\<rparr>]\<rparr>"
  by (simp add: rename_eval)

lemma ex_trailing_names:
  "trailing_names (push_slash ''/d'')
     (listed_entries [([ex_item ''d/.h'', ex_prefix_item ''d/sub/'', ex_item ''d/x'',
                          ex_item ''d/y''], False)])
   = [''.h'', ''sub'', ''x'', ''y'']"
  by (simp add: trailing_names_simps rename_eval)


theorem dot_names_skipped_in_local_pass_witness:
  "azs_rename_directory ex_opts (ex_rename_env (Some ex_cached) ex_remote) ''/d'' ''/e''
     = Some (ex_rename_calls, Returned 0)
   \<and> ''.only'' \<in> set (map d_name ex_cached) \<and> ''.h'' \<in> set (map d_name ex_cached)
   \<and> ''.only'' \<notin> set (snd (rename_local ''/d/'' ''/e/'' ex_cached))
   \<and> times_renamed ''/d/.only'' (fst (rename_local ''/d/'' ''/e/'' ex_cached)) = 0
   \<and> times_renamed ''/d/.only'' ex_rename_calls = 0
   \<and> times_renamed ''/d/.h'' (fst (rename_local ''/d/'' ''/e/'' ex_cached)) = 0
   \<and> times_renamed ''/d/.h'' ex_rename_calls = 1"
proof -
  let ?env = "ex_rename_env (Some ex_cached) ex_remote"
  have em: "0 \<notin> ran (rename_error_mapping ?env)" by (simp add: ex_rename_env_def)
  have mem: "''.only'' \<in> set (map d_name ex_cached)" "''.h'' \<in> set (map d_name ex_cached)"
    by (simp_all add: ex_cached_def)
  have nd: "\<not> not_dot_name ''.only''" "\<not> not_dot_name ''.h''"
    by (simp_all add: not_dot_name_def)
  have px: "push_slash ''/d'' @ ''.only'' = ''/d/.only''" "push_slash ''/d'' @ ''.h'' = ''/d/.h''"
    "push_slash ''/d'' = ''/d/''" "push_slash ''/e'' = ''/e/''"
    by (simp_all add: push_slash_def)
  have absent: "''.only'' \<notin> set [''.h'', ''sub'', ''x'', ''y'']" by simp
  have cnt: "count_list [''.h'', ''sub'', ''x'', ''y''] ''.h'' = 1" by simp
  note only = dot_names_skipped_in_local_pass
      [OF ex_rename_run ex_rename_listing nd(1), of ex_cached]
  note h = dot_names_skipped_in_local_pass
      [OF ex_rename_run ex_rename_listing nd(2), of ex_cached]
  have a: "''.only'' \<notin> set (snd (rename_local ''/d/'' ''/e/'' ex_cached))
           \<and> times_renamed ''/d/.only'' (fst (rename_local ''/d/'' ''/e/'' ex_cached)) = 0
           \<and> times_renamed ''/d/.only'' ex_rename_calls = 0"
    using only absent ex_trailing_names by (simp add: px)
  have b: "times_renamed ''/d/.h'' (fst (rename_local ''/d/'' ''/e/'' ex_cached)) = 0
           \<and> times_renamed ''/d/.h'' ex_rename_calls = 1"
    using h em cnt ex_trailing_names by (simp add: px)
  from ex_rename_run mem a b show ?thesis by simp
qed

lemma ex_getattr_directory:
  "azs_getattr ex_opts (ex_getattr_env [ex_prefix_item ''d/'']) ''/d'' ex_stat
     = Some (0, \<lparr>st_mode = 16895, st_uid = 1000, st_gid = 1000, st_nlink = 2, st_size = 4096,
                 st_mtime = 1000, st_ctime = 1000\<rparr>)"
  by (simp add: azs_getattr_def scan_batches_def page_entries_def
      list_all_blobs_hierarchical_def list_all_init_def list_all_body_def
      list_all_again_def maxFailCount_def Let_def is_directory_blob_def empty_item_def
      ex_getattr_env_def ex_prefix_item_def ex_opts_def ex_stat_def S_IFDIR_def)

lemma ex_getattr_file:
  "azs_getattr ex_opts (ex_getattr_env [ex_item ''f'']) ''/f'' ex_stat
     = Some (0, \<lparr>st_mode = 33279, st_uid = 1000, st_gid = 1000, st_nlink = 1, st_size = 0,
                 st_mtime = 0, st_ctime = 1000\<rparr>)"
  by (simp add: azs_getattr_def scan_batches_def page_entries_def
      list_all_blobs_hierarchical_def list_all_init_def list_all_body_def
      list_all_again_def maxFailCount_def Let_def is_directory_blob_def empty_item_def
      ex_getattr_env_def ex_item_def ex_opts_def ex_stat_def S_IFREG_def ex_folder_def)

lemma replicate_numeral_Cons: "replicate (numeral k) x = x # replicate (pred_numeral k) x"
  by (simp add: numeral_eq_Suc)

lemma ex_rename_listing_fails:
  "azs_rename_directory ex_opts (ex_rename_env (Some ex_cached) ex_listing_down) ''/d'' ''/e''
     = Some ([EnsureDirectory ''/tmp/root/e/placeholder'',
              RenameSingleFile ''/d/x'' ''/e/x'', RenameDirectory ''/d/sub'' ''/e/sub''],
             Returned (- 5))"
  by (simp add: azs_rename_directory_def push_slash_def prepend_mnt_path_string_def
  is_directory_blob_def ENOENT_def EIO_def map_errno_def
  list_all_blobs_hierarchical_def list_all_init_def list_all_body_def
  list_all_again_def maxFailCount_def Let_def not_dot_name_def
  ex_rename_env_def ex_cached_def ex_listing_down_def ex_fail_def ex_absent_def ex_opts_def
  replicate_numeral_Cons)

theorem azs_rename_reports_success_witness:
  "azs_getattr ex_opts (ex_getattr_env [ex_prefix_item ''d/'']) ''/d'' ex_stat
     = Some (0, \<lparr>st_mode = 16895, st_uid = 1000, st_gid = 1000, st_nlink = 2, st_size = 4096,
                 st_mtime = 1000, st_ctime = 1000\<rparr>)
   \<and> azs_rename_directory ex_opts (ex_rename_env (Some ex_cached) ex_listing_down) ''/d'' ''/e''
     = Some ([EnsureDirectory ''/tmp/root/e/placeholder'',
              RenameSingleFile ''/d/x'' ''/e/x'', RenameDirectory ''/d/sub'' ''/e/sub''],
             Returned (- 5))
   \<and> azs_rename ex_opts (ex_getattr_env [ex_prefix_item ''d/''])
        (ex_rename_env (Some ex_cached) ex_listing_down) 0 ''/d'' ''/e'' ex_stat
     = Some ([EnsureDirectory ''/tmp/root/e/placeholder'',
              RenameSingleFile ''/d/x'' ''/e/x'', RenameDirectory ''/d/sub'' ''/e/sub''],
             Returned 0)
   \<and> azs_rename ex_opts (ex_getattr_env [ex_item ''f''])
        (ex_rename_env None []) (- 5) ''/f'' ''/g'' ex_stat
     = Some ([RenameSingleFile ''/f'' ''/g''], Returned 0)"
proof -
  have dir: "(st_mode \<lparr>st_mode = 16895, st_uid = 1000, st_gid = 1000, st_nlink = 2,
                 st_size = 4096, st_mtime = 1000, st_ctime = 1000\<rparr> AND S_IFDIR) = S_IFDIR"
    by (simp add: S_IFDIR_def)
  have reg: "(st_mode \<lparr>st_mode = 33279, st_uid = 1000, st_gid = 1000, st_nlink = 1,
                 st_size = 0, st_mtime = 0, st_ctime = 1000\<rparr> AND S_IFDIR) \<noteq> S_IFDIR"
    by (simp add: S_IFDIR_def)
  have a: "azs_rename ex_opts (ex_getattr_env [ex_prefix_item ''d/''])
        (ex_rename_env (Some ex_cached) ex_listing_down) 0 ''/d'' ''/e'' ex_stat
     = Some ([EnsureDirectory ''/tmp/root/e/placeholder'',
              RenameSingleFile ''/d/x'' ''/e/x'', RenameDirectory ''/d/sub'' ''/e/sub''],
             Returned 0)"
    using azs_rename_reports_success [OF ex_getattr_directory,
        of "ex_rename_env (Some ex_cached) ex_listing_down" 0 "''/e''"]
      dir ex_rename_listing_fails
    by blast
  have b: "azs_rename ex_opts (ex_getattr_env [ex_item ''f''])
        (ex_rename_env None []) (- 5) ''/f'' ''/g'' ex_stat
     = Some ([RenameSingleFile ''/f'' ''/g''], Returned 0)"
    using azs_rename_reports_success [OF ex_getattr_file,
        of "ex_rename_env None []" "- 5" "''/g''"] reg
    by blast
  from ex_getattr_directory ex_rename_listing_fails a b show ?thesis by simp
qed

end
